theory Spec2Isabelle
  imports Complex_Main "HOL-Library.AList"
begin

section \<open>Values, dictionaries and errors\<close>

text \<open>
  The training script \<^verbatim>\<open>nequip/scripts/train.py\<close> works on a configuration
  whose entries are untyped Python values. The values the script can tell apart are
  modelled by one datatype. A Python \<^verbatim>\<open>float\<close> is modelled by a real number
  (so rounding, infinities and NaN are outside the model); a \<^verbatim>\<open>torch.Tensor\<close>
  is modelled by the list of its entries (a scalar tensor has one entry).
\<close>

datatype pyval =
    PNone
  | PBool bool
  | PInt int
  | PFloat real
  | PStr string
  | PTensor "real list"
  | PList "pyval list"
  | PDict "(string \<times> pyval) list"

type_synonym dict = "(string \<times> pyval) list"

text \<open>
  Every \<^verbatim>\<open>raise\<close> of the script is one constructor; the remaining
  constructors are the exceptions Python or torch raise on ill-typed values.
  \<open>OutsideRealModel\<close> is not an exception: it marks a tensor division by a zero
  entry, where the source goes on with an infinite or NaN entry that real numbers
  do not represent.
\<close>

datatype error =
    TrainingFieldsNotSupported "pyval list"
      \<comment> \<open>\<^verbatim>\<open>NotImplementedError\<close>, line 149\<close>
  | EitherGlobalOrPerSpeciesShift
      \<comment> \<open>\<^verbatim>\<open>ValueError("One can only enable either global shift or per_species shift")\<close>, line 168\<close>
  | ForceRmsWithoutForceTraining
      \<comment> \<open>\<^verbatim>\<open>ValueError("Cannot have global_scale = 'dataset_force_rms' without force training")\<close>, line 178\<close>
  | GlobalScalingVeryLow real
      \<comment> \<open>\<^verbatim>\<open>ValueError("Global energy scaling was very low: ...")\<close>, line 229\<close>
  | AtomicScalingVeryLow real
      \<comment> \<open>\<^verbatim>\<open>ValueError("Atomic energy scaling was very low: ...")\<close>, line 250\<close>
  | InvalidValue string pyval
      \<comment> \<open>\<^verbatim>\<open>ValueError("Invalid {variable_name} `{variable}`")\<close>, line 351\<close>
  | MissingKey string
      \<comment> \<open>attribute access on the configuration for a key it does not hold\<close>
  | NotIterableOrUnhashable
      \<comment> \<open>\<^verbatim>\<open>TypeError\<close> of \<^verbatim>\<open>set(train_on)\<close>\<close>
  | AmbiguousTruthValue
      \<comment> \<open>\<^verbatim>\<open>RuntimeError\<close>: truth value of a tensor with other than one entry\<close>
  | BadUnpack
      \<comment> \<open>\<^verbatim>\<open>ValueError\<close> of a tuple unpacking whose right side has another shape\<close>
  | TorchMinFailed
      \<comment> \<open>\<^verbatim>\<open>torch.min\<close> of a non-tensor (\<^verbatim>\<open>TypeError\<close>) or of an empty tensor (\<^verbatim>\<open>RuntimeError\<close>)\<close>
  | DivisionTypeError
      \<comment> \<open>\<^verbatim>\<open>TypeError\<close>: operands of \<^verbatim>\<open>/\<close> that do not divide, or tensors whose sizes do not broadcast\<close>
  | ZeroDivision
      \<comment> \<open>\<^verbatim>\<open>ZeroDivisionError\<close> of a Python scalar division\<close>
  | OutsideRealModel

subsection \<open>Dictionary operations\<close>

text \<open>
  The configuration and the statistics mapping are Python dictionaries, kept here as
  association lists in insertion order. \<^verbatim>\<open>d.get(k, dflt)\<close>,
  \<^verbatim>\<open>d.pop(k, dflt)\<close> and \<^verbatim>\<open>d[k] = v\<close>:
\<close>

definition dict_get :: "dict \<Rightarrow> string \<Rightarrow> pyval \<Rightarrow> pyval" where
  "dict_get d k dflt = (case map_of d k of None \<Rightarrow> dflt | Some v \<Rightarrow> v)"

definition dict_pop :: "dict \<Rightarrow> string \<Rightarrow> pyval \<Rightarrow> pyval \<times> dict" where
  "dict_pop d k dflt = (dict_get d k dflt, AList.delete k d)"

definition dict_set :: "dict \<Rightarrow> string \<Rightarrow> pyval \<Rightarrow> dict" where
  "dict_set d k v = AList.update k v d"

text \<open>\<^verbatim>\<open>config.<name>\<close>: attribute access, which fails for a key that is not there.\<close>

definition config_attr :: "dict \<Rightarrow> string \<Rightarrow> error + pyval" where
  "config_attr config k = (case map_of config k of None \<Rightarrow> Inl (MissingKey k) | Some v \<Rightarrow> Inr v)"

text \<open>
  \<^verbatim>\<open>pop_per_species\<close> (lines 327-331) and \<^verbatim>\<open>get_per_species\<close>
  (lines 334-338). Python evaluates the inner call first, as an argument of the outer
  one, so \<^verbatim>\<open>pop_per_species\<close> removes both spellings of the key.
\<close>

definition pop_per_species :: "dict \<Rightarrow> string \<Rightarrow> pyval \<Rightarrow> pyval \<times> dict" where
  "pop_per_species config key dflt =
     (case dict_pop config (''per_species_scale_shift_'' @ key) dflt of
        (inner, config1) \<Rightarrow> dict_pop config1 (''PerSpeciesScaleShift_'' @ key) inner)"

definition get_per_species :: "dict \<Rightarrow> string \<Rightarrow> pyval \<Rightarrow> pyval" where
  "get_per_species config key dflt =
     dict_get config (''PerSpeciesScaleShift_'' @ key)
       (dict_get config (''per_species_scale_shift_'' @ key) dflt)"

subsection \<open>Truth values\<close>

text \<open>The truth value Python gives a value in \<^verbatim>\<open>if\<close> and \<^verbatim>\<open>and\<close>.\<close>

fun truthy :: "pyval \<Rightarrow> error + bool" where
  "truthy PNone = Inr False"
| "truthy (PBool b) = Inr b"
| "truthy (PInt i) = Inr (i \<noteq> 0)"
| "truthy (PFloat x) = Inr (x \<noteq> 0)"
| "truthy (PStr s) = Inr (s \<noteq> [])"
| "truthy (PTensor t) = (case t of [x] \<Rightarrow> Inr (x \<noteq> 0) | _ \<Rightarrow> Inl AmbiguousTruthValue)"
| "truthy (PList xs) = Inr (xs \<noteq> [])"
| "truthy (PDict kvs) = Inr (kvs \<noteq> [])"

section \<open>The value resolver \<^verbatim>\<open>set_value\<close> (lines 341-351)\<close>

text \<open>
  The loop over \<^verbatim>\<open>value_dict.items()\<close> returns the value of the first key
  that equals \<^verbatim>\<open>variable\<close>. The keys are strings, and a value that is not a
  string equals no string.
\<close>

fun set_value_loop :: "pyval \<Rightarrow> dict \<Rightarrow> pyval option" where
  "set_value_loop variable [] = None"
| "set_value_loop variable ((key, val) # rest) =
     (if variable = PStr key then Some val else set_value_loop variable rest)"

fun is_float :: "pyval \<Rightarrow> bool" where
  "is_float (PFloat x) = True"
| "is_float v = False"

fun is_tensor :: "pyval \<Rightarrow> bool" where
  "is_tensor (PTensor t) = True"
| "is_tensor v = False"

definition set_value :: "pyval \<Rightarrow> string \<Rightarrow> dict \<Rightarrow> error + pyval" where
  "set_value variable variable_name value_dict =
     (case set_value_loop variable value_dict of
        Some val \<Rightarrow> Inr val
      | None \<Rightarrow>
          if variable = PNone \<or> is_float variable \<or> is_tensor variable then Inr variable
          else Inl (InvalidValue variable_name variable))"

section \<open>The external collaborators\<close>

text \<open>
  The dataset, the model builder and the key names of \<^verbatim>\<open>AtomicDataDict\<close>
  are not part of the script; they are parameters of the model. A call of
  \<^verbatim>\<open>trainer.dataset_train.statistics(fields=..., modes=..., stride=..., **kwargs)\<close>
  is recorded with its arguments; the dataset answers with a sequence holding, for
  each field, the sequence of its aggregates. The model builder is seen through the
  keys of the \<^verbatim>\<open>irreps_out\<close> of the core model it builds from the configuration.
\<close>

record statistics_call =
  call_fields :: "string list"
  call_modes :: "string list"
  call_stride :: pyval
  call_kwargs :: dict

record environment =
  FORCE_KEY :: string
  TOTAL_ENERGY_KEY :: string
  PER_ATOM_ENERGY_KEY :: string
  dataset_train_statistics :: "statistics_call \<Rightarrow> pyval list list"
  model_builder :: "dict \<Rightarrow> string list"

section \<open>\<^verbatim>\<open>fresh_start\<close>, block by block (lines 144-293)\<close>

text \<open>
  The model starts where line 144 does: the trainer and the dataset exist, and
  \<open>config\<close> is the configuration as lines 104-142 leave it. Each commented block of
  \<^verbatim>\<open>fresh_start\<close> is one definition; \<^verbatim>\<open>fresh_start\<close> itself composes them
  in the order of the source, and every \<^verbatim>\<open>raise\<close> ends the run.
\<close>

subsection \<open>Determine training type (lines 145-152)\<close>

fun hashable :: "pyval \<Rightarrow> bool" where
  "hashable (PList xs) = False"
| "hashable (PDict kvs) = False"
| "hashable v = True"

text \<open>
  The elements \<^verbatim>\<open>set(train_on)\<close> collects: a string is wrapped in a list
  first, a list gives its elements, a dictionary its keys, a tensor its entries as
  scalar tensors; nothing else can be iterated.
\<close>

fun train_on_elements :: "pyval \<Rightarrow> error + pyval list" where
  "train_on_elements (PStr s) = Inr [PStr s]"
| "train_on_elements (PList xs) =
     (if list_all hashable xs then Inr xs else Inl NotIterableOrUnhashable)"
| "train_on_elements (PDict kvs) = Inr (map (\<lambda>kv. PStr (fst kv)) kvs)"
| "train_on_elements (PTensor t) = Inr (map (\<lambda>x. PTensor [x]) t)"
| "train_on_elements v = Inl NotIterableOrUnhashable"

definition determine_training_type :: "dict \<Rightarrow> error + bool" where
  "determine_training_type config =
     (case config_attr config ''loss_coeffs'' of
        Inl e \<Rightarrow> Inl e
      | Inr loss_coeffs \<Rightarrow>
          (case train_on_elements loss_coeffs of
             Inl e \<Rightarrow> Inl e
           | Inr train_on \<Rightarrow>
               if \<not> set train_on \<subseteq> {PStr ''forces'', PStr ''total_energy''}
               then Inl (TrainingFieldsNotSupported (remdups train_on))
               else Inr (PStr ''forces'' \<in> set train_on)))"

subsection \<open>Determine energy rescale type (lines 158-169)\<close>

text \<open>The local variables of \<^verbatim>\<open>fresh_start\<close> this block sets, and the configuration after the three pops.\<close>

record rescale_type =
  global_shift :: pyval
  global_scale :: pyval
  per_species_scale_shift :: pyval
  scales :: pyval
  shifts :: pyval
  sigma :: pyval
  config_after :: dict

definition read_rescale_type :: "dict \<Rightarrow> bool \<Rightarrow> rescale_type" where
  "read_rescale_type config force_training =
     (case pop_per_species config ''scales'' PNone of (scales_v, config1) \<Rightarrow>
      case pop_per_species config1 ''shifts'' PNone of (shifts_v, config2) \<Rightarrow>
      case pop_per_species config2 ''sigma'' PNone of (sigma_v, config3) \<Rightarrow>
        \<lparr> global_shift = dict_get config ''global_rescale_shift'' (PStr ''dataset_energy_mean''),
          global_scale = dict_get config ''global_rescale_scale''
            (PStr (if force_training then ''dataset_force_rms'' else ''dataset_energy_std'')),
          per_species_scale_shift = get_per_species config ''enable'' (PBool False),
          scales = scales_v,
          shifts = shifts_v,
          sigma = sigma_v,
          config_after = config3 \<rparr>)"

text \<open>
  Line 167: \<^verbatim>\<open>and\<close> takes the truth value of \<^verbatim>\<open>per_species_scale_shift\<close>
  only when the global shift is not \<^verbatim>\<open>None\<close>.
\<close>

definition determine_energy_rescale_type :: "dict \<Rightarrow> bool \<Rightarrow> error + rescale_type" where
  "determine_energy_rescale_type config force_training =
     (let r = read_rescale_type config force_training in
      if global_shift r \<noteq> PNone then
        (case truthy (per_species_scale_shift r) of
           Inl e \<Rightarrow> Inl e
         | Inr enabled \<Rightarrow> if enabled then Inl EitherGlobalOrPerSpeciesShift else Inr r)
      else Inr r)"

subsection \<open>Determine what statistics need to be computed (lines 172-180)\<close>

definition startswith :: "string \<Rightarrow> string \<Rightarrow> bool" where
  "startswith s prefix = (take (length prefix) s = prefix)"

text \<open>The \<^verbatim>\<open>for\<close> loop of lines 173-175 and the \<^verbatim>\<open>list(set(keys))\<close> of line 176.\<close>

fun statistics_keys :: "pyval list \<Rightarrow> string list" where
  "statistics_keys [] = []"
| "statistics_keys (PStr s # rest) =
     (if startswith s ''dataset'' then [drop (length ''dataset_'') s] else []) @ statistics_keys rest"
| "statistics_keys (v # rest) = statistics_keys rest"

definition required_keys :: "rescale_type \<Rightarrow> string list" where
  "required_keys r =
     remdups (statistics_keys [global_shift r, global_scale r, scales r, shifts r])"

definition determine_statistics_keys :: "rescale_type \<Rightarrow> bool \<Rightarrow> error + string list" where
  "determine_statistics_keys r force_training =
     (if ''force_rms'' \<in> set (required_keys r) \<and> \<not> force_training
      then Inl ForceRmsWithoutForceTraining
      else Inr (required_keys r))"

text \<open>
  The test of line 174 on one slot, and beside it the form the specification gives
  a Statistic Placeholder, a string \<^verbatim>\<open>dataset_<name>\<close>, for comparison.
\<close>

fun treated_as_placeholder :: "pyval \<Rightarrow> bool" where
  "treated_as_placeholder (PStr s) = startswith s ''dataset''"
| "treated_as_placeholder v = False"

fun spec_placeholder :: "pyval \<Rightarrow> bool" where
  "spec_placeholder (PStr s) = startswith s ''dataset_''"
| "spec_placeholder v = False"

subsection \<open>Get statistics of training dataset (lines 183-209)\<close>

text \<open>
  Each of the three \<^verbatim>\<open>if\<close> statements takes the statistics mapping and the
  calls made so far, and returns them updated. The arguments of the call are
  evaluated before the call; the unpacking of its answer fails when the answer has
  another shape.
\<close>

type_synonym collector = "dict \<times> statistics_call list"

definition statistics_force_rms ::
  "environment \<Rightarrow> dict \<Rightarrow> string list \<Rightarrow> collector \<Rightarrow> (error + dict) \<times> statistics_call list" where
  "statistics_force_rms env config keys st =
     (case st of (dataset_statistics, calls) \<Rightarrow>
        if ''force_rms'' \<in> set keys then
          (case config_attr config ''dataset_statistics_stride'' of
             Inl e \<Rightarrow> (Inl e, calls)
           | Inr stride \<Rightarrow>
               (let call = \<lparr> call_fields = [FORCE_KEY env], call_modes = [''rms''],
                              call_stride = stride, call_kwargs = [] \<rparr>
                in case dataset_train_statistics env call of
                     [[rms]] \<Rightarrow>
                       (Inr (dict_set dataset_statistics ''dataset_force_rms'' rms), calls @ [call])
                   | _ \<Rightarrow> (Inl BadUnpack, calls @ [call])))
        else (Inr dataset_statistics, calls))"

definition statistics_energy ::
  "environment \<Rightarrow> dict \<Rightarrow> string list \<Rightarrow> collector \<Rightarrow> (error + dict) \<times> statistics_call list" where
  "statistics_energy env config keys st =
     (case st of (dataset_statistics, calls) \<Rightarrow>
        if ''energy_std'' \<in> set keys \<or> ''energy_mean'' \<in> set keys then
          (case config_attr config ''dataset_statistics_stride'' of
             Inl e \<Rightarrow> (Inl e, calls)
           | Inr stride \<Rightarrow>
               (let call = \<lparr> call_fields = [TOTAL_ENERGY_KEY env], call_modes = [''mean_std''],
                              call_stride = stride, call_kwargs = [] \<rparr>
                in case dataset_train_statistics env call of
                     [[mean, std]] \<Rightarrow>
                       (Inr (dict_set (dict_set dataset_statistics ''dataset_energy_mean'' mean)
                               ''dataset_energy_std'' std),
                        calls @ [call])
                   | _ \<Rightarrow> (Inl BadUnpack, calls @ [call])))
        else (Inr dataset_statistics, calls))"

definition statistics_per_species_energy ::
  "environment \<Rightarrow> dict \<Rightarrow> pyval \<Rightarrow> string list \<Rightarrow> collector \<Rightarrow>
     (error + dict) \<times> statistics_call list" where
  "statistics_per_species_energy env config sigma_v keys st =
     (case st of (dataset_statistics, calls) \<Rightarrow>
        if ''per_species_energy_std'' \<in> set keys \<or> ''per_species_energy_mean'' \<in> set keys then
          (let algorithm_kwargs = get_per_species config ''algorithm_kwargs'' (PDict []) in
           case config_attr config ''dataset_statistics_stride'' of
             Inl e \<Rightarrow> (Inl e, calls)
           | Inr stride \<Rightarrow>
               (let call = \<lparr> call_fields = [TOTAL_ENERGY_KEY env],
                              call_modes = [''atom_type_mean_std''],
                              call_stride = stride,
                              call_kwargs = [(''sigma'', sigma_v),
                                             (''algorithm_kwargs'', algorithm_kwargs)] \<rparr>
                in case dataset_train_statistics env call of
                     [[mean, std]] \<Rightarrow>
                       (Inr (dict_set
                               (dict_set dataset_statistics ''dataset_per_species_energy_mean'' mean)
                               ''dataset_per_species_energy_std'' std),
                        calls @ [call])
                   | _ \<Rightarrow> (Inl BadUnpack, calls @ [call])))
        else (Inr dataset_statistics, calls))"

definition get_statistics ::
  "environment \<Rightarrow> dict \<Rightarrow> pyval \<Rightarrow> string list \<Rightarrow> (error + dict) \<times> statistics_call list" where
  "get_statistics env config sigma_v keys =
     (case statistics_force_rms env config keys ([], []) of
        (Inl e, calls1) \<Rightarrow> (Inl e, calls1)
      | (Inr stats1, calls1) \<Rightarrow>
          (case statistics_energy env config keys (stats1, calls1) of
             (Inl e, calls2) \<Rightarrow> (Inl e, calls2)
           | (Inr stats2, calls2) \<Rightarrow>
               statistics_per_species_energy env config sigma_v keys (stats2, calls2)))"

subsection \<open>Determine global shift and scale (lines 216-231)\<close>

definition RESCALE_THRESHOLD :: real where
  "RESCALE_THRESHOLD = 1 / 1000000"

text \<open>Lines 228-231: only a Python \<^verbatim>\<open>float\<close> is compared with the threshold.\<close>

fun check_global_scale :: "pyval \<Rightarrow> error + unit" where
  "check_global_scale (PFloat x) =
     (if x < RESCALE_THRESHOLD then Inl (GlobalScalingVeryLow x) else Inr ())"
| "check_global_scale v = Inr ()"

definition determine_global_shift_scale :: "rescale_type \<Rightarrow> dict \<Rightarrow> error + pyval \<times> pyval" where
  "determine_global_shift_scale r dataset_statistics =
     (case set_value (global_shift r) ''global_shift'' dataset_statistics of
        Inl e \<Rightarrow> Inl e
      | Inr shift_v \<Rightarrow>
          (case set_value (global_scale r) ''global_scale'' dataset_statistics of
             Inl e \<Rightarrow> Inl e
           | Inr scale_v \<Rightarrow>
               (case check_global_scale scale_v of
                  Inl e \<Rightarrow> Inl e
                | Inr u \<Rightarrow> Inr (shift_v, scale_v))))"

subsection \<open>Determine per species scale/shift (lines 235-258)\<close>

text \<open>
  \<^verbatim>\<open>torch.min\<close> needs a tensor with at least one entry. Division follows
  Python and torch: two Python numbers give a float (or \<^verbatim>\<open>ZeroDivisionError\<close>),
  a tensor and a number or two tensors divide entry by entry, a one-entry operand
  being broadcast.
\<close>

fun torch_min :: "pyval \<Rightarrow> error + real" where
  "torch_min (PTensor (x # xs)) = Inr (fold min xs x)"
| "torch_min v = Inl TorchMinFailed"

fun number_of :: "pyval \<Rightarrow> real option" where
  "number_of (PBool b) = Some (if b then 1 else 0)"
| "number_of (PInt i) = Some (of_int i)"
| "number_of (PFloat x) = Some x"
| "number_of v = None"

definition broadcast :: "real list \<Rightarrow> real list \<Rightarrow> (real \<times> real) list option" where
  "broadcast t u =
     (if length t = length u then Some (zip t u)
      else if length u = 1 then Some (map (\<lambda>x. (x, hd u)) t)
      else if length t = 1 then Some (map (\<lambda>y. (hd t, y)) u)
      else None)"

definition tensor_div :: "real list \<Rightarrow> real list \<Rightarrow> error + pyval" where
  "tensor_div t u =
     (case broadcast t u of
        None \<Rightarrow> Inl DivisionTypeError
      | Some ps \<Rightarrow>
          if list_ex (\<lambda>p. snd p = 0) ps then Inl OutsideRealModel
          else Inr (PTensor (map (\<lambda>p. fst p / snd p) ps)))"

fun entries_of :: "pyval \<Rightarrow> real list option" where
  "entries_of (PTensor t) = Some t"
| "entries_of v = None"

definition scalar_div :: "pyval \<Rightarrow> pyval \<Rightarrow> error + pyval" where
  "scalar_div a b =
     (case number_of a of
        None \<Rightarrow> Inl DivisionTypeError
      | Some x \<Rightarrow>
          (case number_of b of
             None \<Rightarrow> Inl DivisionTypeError
           | Some y \<Rightarrow> if y = 0 then Inl ZeroDivision else Inr (PFloat (x / y))))"

definition py_truediv :: "pyval \<Rightarrow> pyval \<Rightarrow> error + pyval" where
  "py_truediv a b =
     (case entries_of a of
        Some t \<Rightarrow>
          (case entries_of b of
             Some u \<Rightarrow> tensor_div t u
           | None \<Rightarrow>
               (case number_of b of Some y \<Rightarrow> tensor_div t [y] | None \<Rightarrow> Inl DivisionTypeError))
      | None \<Rightarrow>
          (case entries_of b of
             Some u \<Rightarrow>
               (case number_of a of Some x \<Rightarrow> tensor_div [x] u | None \<Rightarrow> Inl DivisionTypeError)
           | None \<Rightarrow> scalar_div a b))"

text \<open>Lines 249-253: the check of the resolved per-species scales.\<close>

definition check_atomic_scales :: "pyval \<Rightarrow> error + unit" where
  "check_atomic_scales scales_v =
     (if scales_v = PNone then Inr ()
      else (case torch_min scales_v of
              Inl e \<Rightarrow> Inl e
            | Inr m \<Rightarrow> if m < RESCALE_THRESHOLD then Inl (AtomicScalingVeryLow m) else Inr ()))"

text \<open>Lines 254-255: \<^verbatim>\<open>None if x is None else x / gs\<close>.\<close>

definition relative_to :: "pyval \<Rightarrow> pyval \<Rightarrow> error + pyval" where
  "relative_to x gs = (if x = PNone then Inr PNone else py_truediv x gs)"

definition determine_per_species :: "rescale_type \<Rightarrow> pyval \<Rightarrow> dict \<Rightarrow> error + dict" where
  "determine_per_species r scale_v dataset_statistics =
     (case truthy (per_species_scale_shift r) of
        Inl e \<Rightarrow> Inl e
      | Inr enabled \<Rightarrow>
          if enabled then
            (let gs = (if scale_v = PNone then PInt 1 else scale_v) in
             case set_value (scales r) ''per_species_scales'' dataset_statistics of
               Inl e \<Rightarrow> Inl e
             | Inr scales_v \<Rightarrow>
                 (case set_value (shifts r) ''per_species_shifts'' dataset_statistics of
                    Inl e \<Rightarrow> Inl e
                  | Inr shifts_v \<Rightarrow>
                      (case check_atomic_scales scales_v of
                         Inl e \<Rightarrow> Inl e
                       | Inr u \<Rightarrow>
                           (case relative_to scales_v gs of
                              Inl e \<Rightarrow> Inl e
                            | Inr stored_scales \<Rightarrow>
                                (case relative_to shifts_v gs of
                                   Inl e \<Rightarrow> Inl e
                                 | Inr stored_shifts \<Rightarrow>
                                     Inr (dict_set
                                            (dict_set (config_after r)
                                               ''PerSpeciesScaleShift_scales'' stored_scales)
                                            ''PerSpeciesScaleShift_shifts'' stored_shifts))))))
          else Inr (config_after r))"

subsection \<open>Build the model (lines 261-293)\<close>

text \<open>
  The arguments \<^verbatim>\<open>RescaleOutput\<close> is constructed with. Loading the builder,
  the initializers and the compilation of the model are the collaborators' work and
  are not modelled.
\<close>

record rescale_output =
  core_irreps_out :: "string list"
  scale_keys :: "string list"
  scale_by :: pyval
  shift_keys :: string
  shift_by :: pyval
  trainable_global_rescale_shift :: pyval
  trainable_global_rescale_scale :: pyval

definition rescale_scale_keys :: "environment \<Rightarrow> string list \<Rightarrow> string list" where
  "rescale_scale_keys env irreps_out =
     [TOTAL_ENERGY_KEY env]
     @ (if FORCE_KEY env \<in> set irreps_out then [FORCE_KEY env] else [])
     @ (if PER_ATOM_ENERGY_KEY env \<in> set irreps_out then [PER_ATOM_ENERGY_KEY env] else [])"

definition build_model :: "environment \<Rightarrow> dict \<Rightarrow> pyval \<Rightarrow> pyval \<Rightarrow> rescale_output" where
  "build_model env config shift_v scale_v =
     (let irreps_out = model_builder env config in
      \<lparr> core_irreps_out = irreps_out,
        scale_keys = rescale_scale_keys env irreps_out,
        scale_by = scale_v,
        shift_keys = TOTAL_ENERGY_KEY env,
        shift_by = shift_v,
        trainable_global_rescale_shift =
          dict_get config ''trainable_global_rescale_shift'' (PBool False),
        trainable_global_rescale_scale =
          dict_get config ''trainable_global_rescale_scale'' (PBool False) \<rparr>)"

subsection \<open>The whole of \<^verbatim>\<open>fresh_start\<close> from line 144 on\<close>

record outcome =
  final_config :: dict
  final_model :: rescale_output

text \<open>
  The rescale calibration: everything after the training type is known, up to the
  assembled model. The result comes with the calls made to the dataset, also when
  it is an error.
\<close>

definition rescale_calibration ::
  "environment \<Rightarrow> dict \<Rightarrow> bool \<Rightarrow> (error + outcome) \<times> statistics_call list" where
  "rescale_calibration env config force_training =
     (case determine_energy_rescale_type config force_training of
        Inl e \<Rightarrow> (Inl e, [])
      | Inr r \<Rightarrow>
          (case determine_statistics_keys r force_training of
             Inl e \<Rightarrow> (Inl e, [])
           | Inr keys \<Rightarrow>
               (case get_statistics env (config_after r) (sigma r) keys of
                  (Inl e, calls) \<Rightarrow> (Inl e, calls)
                | (Inr dataset_statistics, calls) \<Rightarrow>
                    (case determine_global_shift_scale r dataset_statistics of
                       Inl e \<Rightarrow> (Inl e, calls)
                     | Inr (shift_v, scale_v) \<Rightarrow>
                         (case determine_per_species r scale_v dataset_statistics of
                            Inl e \<Rightarrow> (Inl e, calls)
                          | Inr config1 \<Rightarrow>
                              (Inr \<lparr> final_config = config1,
                                     final_model = build_model env config1 shift_v scale_v \<rparr>,
                               calls))))))"

definition fresh_start ::
  "environment \<Rightarrow> dict \<Rightarrow> (error + outcome) \<times> statistics_call list" where
  "fresh_start env config =
     (case determine_training_type config of
        Inl e \<Rightarrow> (Inl e, [])
      | Inr force_training \<Rightarrow> rescale_calibration env config force_training)"

section \<open>A stub dataset and core model for concrete runs\<close>

definition example_statistics :: "statistics_call \<Rightarrow> pyval list list" where
  "example_statistics call =
     (if call_modes call = [''rms''] then [[PFloat (5 / 2)]]
      else if call_modes call = [''mean_std''] then [[PFloat 3, PFloat 2]]
      else [[PTensor [- 1, - 2], PTensor [4, 6]]])"

definition example_env :: environment where
  "example_env =
     \<lparr> FORCE_KEY = ''forces'', TOTAL_ENERGY_KEY = ''total_energy'',
       PER_ATOM_ENERGY_KEY = ''atomic_energy'',
       dataset_train_statistics = example_statistics,
       model_builder = (\<lambda>config. [''total_energy'', ''forces'']) \<rparr>"

text \<open>The same dataset with a core model that gives per-atom energies and no forces.\<close>

definition per_atom_env :: environment where
  "per_atom_env =
     example_env \<lparr> model_builder := (\<lambda>config. [''total_energy'', ''atomic_energy'']) \<rparr>"

section \<open>Properties of the blocks\<close>

text \<open>The definitions a concrete run unfolds.\<close>

lemmas run_defs =
  fresh_start_def rescale_calibration_def determine_training_type_def config_attr_def
  determine_energy_rescale_type_def read_rescale_type_def pop_per_species_def
  get_per_species_def dict_pop_def dict_get_def dict_set_def
  determine_statistics_keys_def required_keys_def startswith_def
  get_statistics_def statistics_force_rms_def statistics_energy_def
  statistics_per_species_energy_def determine_global_shift_scale_def set_value_def
  RESCALE_THRESHOLD_def determine_per_species_def check_atomic_scales_def relative_to_def
  py_truediv_def tensor_div_def broadcast_def scalar_div_def build_model_def
  rescale_scale_keys_def example_env_def example_statistics_def Let_def

subsection \<open>The value resolver\<close>

lemma set_value_loop_non_string:
  "\<forall>s. variable \<noteq> PStr s \<Longrightarrow> set_value_loop variable d = None"
  by (induction d) auto

lemma set_value_loop_string: "set_value_loop (PStr k) d = map_of d k"
  by (induction d) auto

lemma set_value_lookup: "map_of d k = Some v \<Longrightarrow> set_value (PStr k) variable_name d = Inr v"
  by (simp add: set_value_def set_value_loop_string)

lemma map_of_dict_set: "map_of (dict_set d k v) = (map_of d)(k \<mapsto> v)"
  by (simp add: dict_set_def update_conv')

lemma set_value_error:
  "set_value variable variable_name d = Inl e \<Longrightarrow> e = InvalidValue variable_name variable"
  by (auto simp add: set_value_def split: option.splits if_splits)

subsection \<open>The errors of the later blocks\<close>

lemma truthy_error: "truthy v = Inl e \<Longrightarrow> e = AmbiguousTruthValue"
  by (cases v) (auto split: list.splits)

lemma torch_min_error: "torch_min v = Inl e \<Longrightarrow> e = TorchMinFailed"
  by (cases v rule: torch_min.cases) auto

lemma check_atomic_scales_error:
  "check_atomic_scales v = Inl e \<Longrightarrow> e = TorchMinFailed \<or> (\<exists>m. e = AtomicScalingVeryLow m)"
  by (auto simp add: check_atomic_scales_def split: if_splits sum.splits dest: torch_min_error)

lemma tensor_div_error:
  "tensor_div t u = Inl e \<Longrightarrow> e = DivisionTypeError \<or> e = OutsideRealModel"
  by (auto simp add: tensor_div_def split: option.splits if_splits)

lemma relative_to_error:
  "relative_to x gs = Inl e \<Longrightarrow>
     e = DivisionTypeError \<or> e = ZeroDivision \<or> e = OutsideRealModel"
  by (auto simp add: relative_to_def py_truediv_def scalar_div_def
      split: if_splits option.splits dest: tensor_div_error)

lemma determine_per_species_error:
  assumes "determine_per_species r scale_v stats = Inl e"
  shows "e \<noteq> GlobalScalingVeryLow y"
proof -
  from assms have
    "e = AmbiguousTruthValue \<or> (\<exists>n v. e = InvalidValue n v) \<or> e = TorchMinFailed \<or>
     (\<exists>m. e = AtomicScalingVeryLow m) \<or> e = DivisionTypeError \<or> e = ZeroDivision \<or>
     e = OutsideRealModel"
    unfolding determine_per_species_def Let_def
    by (auto split: sum.splits if_splits
        dest!: truthy_error set_value_error check_atomic_scales_error relative_to_error)
  then show ?thesis by auto
qed

subsection \<open>The rescale type\<close>

lemma conflict_raised:
  assumes "global_shift (read_rescale_type config force_training) \<noteq> PNone"
    and "truthy (per_species_scale_shift (read_rescale_type config force_training)) = Inr True"
  shows "rescale_calibration env config force_training = (Inl EitherGlobalOrPerSpeciesShift, [])"
  using assms by (simp add: rescale_calibration_def determine_energy_rescale_type_def Let_def)

lemma read_global_shift:
  "global_shift (read_rescale_type config force_training) =
     dict_get config ''global_rescale_shift'' (PStr ''dataset_energy_mean'')"
  by (simp add: read_rescale_type_def split: prod.splits)

lemma read_enable:
  "per_species_scale_shift (read_rescale_type config force_training) =
     get_per_species config ''enable'' (PBool False)"
  by (simp add: read_rescale_type_def split: prod.splits)

lemma rescale_type_read:
  "determine_energy_rescale_type config force_training = Inr r \<Longrightarrow>
     r = read_rescale_type config force_training"
  by (simp add: determine_energy_rescale_type_def Let_def split: if_splits sum.splits)

lemma statistics_keys_required:
  "determine_statistics_keys r force_training = Inr keys \<Longrightarrow> keys = required_keys r"
  by (simp add: determine_statistics_keys_def split: if_splits)

subsection \<open>The required keys\<close>

lemma statistics_keys_member:
  "k \<in> set (statistics_keys vs) \<longleftrightarrow>
     (\<exists>s. PStr s \<in> set vs \<and> startswith s ''dataset'' \<and> k = drop (length ''dataset_'') s)"
  by (induction vs rule: statistics_keys.induct) auto

lemma placeholder_of_key:
  assumes "k \<in> set (statistics_keys vs)"
    and "list_all (\<lambda>v. treated_as_placeholder v = spec_placeholder v) vs"
  shows "PStr (''dataset_'' @ k) \<in> set vs"
proof -
  from assms(1) obtain s where s: "PStr s \<in> set vs" "startswith s ''dataset''"
    "k = drop (length ''dataset_'') s"
    by (auto simp add: statistics_keys_member)
  with assms(2) have "treated_as_placeholder (PStr s) = spec_placeholder (PStr s)"
    by (auto simp add: list_all_iff)
  with s(2) have "take (length ''dataset_'') s = ''dataset_''" by (simp add: startswith_def)
  with s(3) have "''dataset_'' @ k = s" by (metis append_take_drop_id)
  with s(1) show ?thesis by simp
qed

lemma required_keys_slots:
  assumes "k \<in> set (required_keys r)"
    and "list_all (\<lambda>v. treated_as_placeholder v = spec_placeholder v)
           [global_shift r, global_scale r, scales r, shifts r]"
  shows "PStr (''dataset_'' @ k) \<in> set [global_shift r, global_scale r, scales r, shifts r]"
  using assms unfolding required_keys_def set_remdups by (rule placeholder_of_key)

subsection \<open>The calls to the dataset\<close>

lemma force_rms_step:
  assumes "statistics_force_rms env config keys (stats, calls) = (res, calls')"
  shows "(calls' = calls \<and> (\<forall>stats'. res = Inr stats' \<longrightarrow> ''force_rms'' \<notin> set keys \<and> stats' = stats)) \<or>
         (''force_rms'' \<in> set keys \<and>
          (\<exists>c. calls' = calls @ [c] \<and> call_modes c = [''rms''] \<and>
            (\<forall>stats'. res = Inr stats' \<longrightarrow>
               (\<exists>rms. dataset_train_statistics env c = [[rms]] \<and>
                      stats' = dict_set stats ''dataset_force_rms'' rms))))"
  using assms
  by (auto simp add: statistics_force_rms_def Let_def split: if_splits sum.splits list.splits)

lemma energy_step:
  assumes "statistics_energy env config keys (stats, calls) = (res, calls')"
  shows "(calls' = calls \<and> (\<forall>stats'. res = Inr stats' \<longrightarrow>
            ''energy_std'' \<notin> set keys \<and> ''energy_mean'' \<notin> set keys \<and> stats' = stats)) \<or>
         ((''energy_std'' \<in> set keys \<or> ''energy_mean'' \<in> set keys) \<and>
          (\<exists>c. calls' = calls @ [c] \<and> call_modes c = [''mean_std''] \<and>
            (\<forall>stats'. res = Inr stats' \<longrightarrow>
               (\<exists>mean std. dataset_train_statistics env c = [[mean, std]] \<and>
                   stats' = dict_set (dict_set stats ''dataset_energy_mean'' mean)
                              ''dataset_energy_std'' std))))"
  using assms
  by (auto simp add: statistics_energy_def Let_def split: if_splits sum.splits list.splits)

lemma per_species_step:
  assumes "statistics_per_species_energy env config sg keys (stats, calls) = (res, calls')"
  shows "(calls' = calls \<and> (\<forall>stats'. res = Inr stats' \<longrightarrow>
            ''per_species_energy_std'' \<notin> set keys \<and> ''per_species_energy_mean'' \<notin> set keys \<and> stats' = stats)) \<or>
         ((''per_species_energy_std'' \<in> set keys \<or> ''per_species_energy_mean'' \<in> set keys) \<and>
          (\<exists>c. calls' = calls @ [c] \<and> call_modes c = [''atom_type_mean_std''] \<and>
            (\<forall>stats'. res = Inr stats' \<longrightarrow>
               (\<exists>mean std. dataset_train_statistics env c = [[mean, std]] \<and>
                   stats' = dict_set (dict_set stats ''dataset_per_species_energy_mean'' mean)
                              ''dataset_per_species_energy_std'' std))))"
  using assms
  by (auto simp add: statistics_per_species_energy_def Let_def split: if_splits sum.splits list.splits)


lemma get_statistics_calls:
  assumes "get_statistics env config sg keys = (res, calls)"
  shows "\<exists>a b c. calls = a @ b @ c \<and>
     (a = [] \<or> ''force_rms'' \<in> set keys \<and> (\<exists>x. a = [x] \<and> call_modes x = [''rms''])) \<and>
     (b = [] \<or> (''energy_std'' \<in> set keys \<or> ''energy_mean'' \<in> set keys) \<and>
        (\<exists>x. b = [x] \<and> call_modes x = [''mean_std''])) \<and>
     (c = [] \<or> (''per_species_energy_std'' \<in> set keys \<or> ''per_species_energy_mean'' \<in> set keys) \<and>
        (\<exists>x. c = [x] \<and> call_modes x = [''atom_type_mean_std'']))"
proof -
  obtain res1 calls1 where s1: "statistics_force_rms env config keys ([], []) = (res1, calls1)"
    by (cases "statistics_force_rms env config keys ([], [])") auto
  from force_rms_step [OF s1]
  have a: "calls1 = [] \<or> ''force_rms'' \<in> set keys \<and> (\<exists>x. calls1 = [x] \<and> call_modes x = [''rms''])"
    by auto
  show ?thesis
  proof (cases res1)
    case (Inl e)
    with s1 assms have "calls = calls1" by (simp add: get_statistics_def)
    with a show ?thesis by (intro exI [of _ calls1] exI [of _ "[]"]) simp
  next
    case (Inr stats1)
    obtain res2 calls2 where s2: "statistics_energy env config keys (stats1, calls1) = (res2, calls2)"
      by (cases "statistics_energy env config keys (stats1, calls1)") auto
    from energy_step [OF s2]
    obtain b where b: "calls2 = calls1 @ b"
      "b = [] \<or> (''energy_std'' \<in> set keys \<or> ''energy_mean'' \<in> set keys) \<and>
        (\<exists>x. b = [x] \<and> call_modes x = [''mean_std''])"
      by auto
    show ?thesis
    proof (cases res2)
      case (Inl e)
      with s1 s2 Inr assms have "calls = calls2" by (simp add: get_statistics_def)
      with a b show ?thesis by (intro exI [of _ calls1] exI [of _ b] exI [of _ "[]"]) simp
    next
      case (Inr stats2)
      with s1 s2 \<open>res1 = Inr stats1\<close> assms
      have s3: "statistics_per_species_energy env config sg keys (stats2, calls2) = (res, calls)"
        by (simp add: get_statistics_def)
      from per_species_step [OF s3]
      obtain c where c: "calls = calls2 @ c"
        "c = [] \<or> (''per_species_energy_std'' \<in> set keys \<or> ''per_species_energy_mean'' \<in> set keys) \<and>
          (\<exists>x. c = [x] \<and> call_modes x = [''atom_type_mean_std''])"
        by auto
      with a b show ?thesis by (intro exI [of _ calls1] exI [of _ b] exI [of _ c]) simp
    qed
  qed
qed

lemma get_statistics_once:
  assumes "get_statistics env config sg keys = (res, calls)"
  shows "length (filter (\<lambda>c. call_modes c = m) calls) \<le> 1"
proof -
  from get_statistics_calls [OF assms] obtain a b c where
    "calls = a @ b @ c"
    "a = [] \<or> (\<exists>x. a = [x] \<and> call_modes x = [''rms''])"
    "b = [] \<or> (\<exists>x. b = [x] \<and> call_modes x = [''mean_std''])"
    "c = [] \<or> (\<exists>x. c = [x] \<and> call_modes x = [''atom_type_mean_std''])"
    by blast
  then show ?thesis by auto
qed

lemma get_statistics_only_required:
  assumes "get_statistics env config sg keys = (res, calls)" and "c \<in> set calls"
  shows "call_modes c = [''rms''] \<and> ''force_rms'' \<in> set keys \<or>
         call_modes c = [''mean_std''] \<and> (''energy_std'' \<in> set keys \<or> ''energy_mean'' \<in> set keys) \<or>
         call_modes c = [''atom_type_mean_std''] \<and>
           (''per_species_energy_std'' \<in> set keys \<or> ''per_species_energy_mean'' \<in> set keys)"
proof -
  from get_statistics_calls [OF assms(1)] obtain a b d where
    "calls = a @ b @ d"
    "a = [] \<or> ''force_rms'' \<in> set keys \<and> (\<exists>x. a = [x] \<and> call_modes x = [''rms''])"
    "b = [] \<or> (''energy_std'' \<in> set keys \<or> ''energy_mean'' \<in> set keys) \<and>
        (\<exists>x. b = [x] \<and> call_modes x = [''mean_std''])"
    "d = [] \<or> (''per_species_energy_std'' \<in> set keys \<or> ''per_species_energy_mean'' \<in> set keys) \<and>
        (\<exists>x. d = [x] \<and> call_modes x = [''atom_type_mean_std''])"
    by blast
  with assms(2) show ?thesis by auto
qed


lemma get_statistics_stored_energy:
  assumes "get_statistics env config sg keys = (Inr stats, calls)"
    and "''energy_std'' \<in> set keys \<or> ''energy_mean'' \<in> set keys"
  shows "\<exists>c mean std. c \<in> set calls \<and> call_modes c = [''mean_std''] \<and>
           dataset_train_statistics env c = [[mean, std]] \<and>
           map_of stats ''dataset_energy_mean'' = Some mean \<and>
           map_of stats ''dataset_energy_std'' = Some std"
proof -
  obtain res1 calls1 where s1: "statistics_force_rms env config keys ([], []) = (res1, calls1)"
    by (cases "statistics_force_rms env config keys ([], [])") auto
  with assms(1) obtain stats1 where r1: "res1 = Inr stats1"
    by (cases res1) (auto simp add: get_statistics_def)
  obtain res2 calls2 where s2: "statistics_energy env config keys (stats1, calls1) = (res2, calls2)"
    by (cases "statistics_energy env config keys (stats1, calls1)") auto
  with assms(1) s1 r1 obtain stats2 where r2: "res2 = Inr stats2"
    by (cases res2) (auto simp add: get_statistics_def)
  from assms(1) s1 r1 s2 r2
  have s3: "statistics_per_species_energy env config sg keys (stats2, calls2) = (Inr stats, calls)"
    by (simp add: get_statistics_def)
  from energy_step [OF s2] r2 assms(2) obtain c mean std where
    c: "calls2 = calls1 @ [c]" "call_modes c = [''mean_std'']"
       "dataset_train_statistics env c = [[mean, std]]"
       "stats2 = dict_set (dict_set stats1 ''dataset_energy_mean'' mean) ''dataset_energy_std'' std"
    by auto
  from per_species_step [OF s3]
  have "c \<in> set calls \<and> map_of stats ''dataset_energy_mean'' = Some mean \<and>
        map_of stats ''dataset_energy_std'' = Some std"
    using c by (auto simp add: map_of_dict_set)
  with c show ?thesis by blast
qed

lemma get_statistics_steps:
  assumes "get_statistics env config sg keys = (Inr stats, calls)"
  obtains stats1 calls1 stats2 calls2 where
    "statistics_force_rms env config keys ([], []) = (Inr stats1, calls1)"
    "statistics_energy env config keys (stats1, calls1) = (Inr stats2, calls2)"
    "statistics_per_species_energy env config sg keys (stats2, calls2) = (Inr stats, calls)"
proof -
  obtain res1 calls1 where s1: "statistics_force_rms env config keys ([], []) = (res1, calls1)"
    by (cases "statistics_force_rms env config keys ([], [])") auto
  with assms obtain stats1 where r1: "res1 = Inr stats1"
    by (cases res1) (auto simp add: get_statistics_def)
  obtain res2 calls2 where s2: "statistics_energy env config keys (stats1, calls1) = (res2, calls2)"
    by (cases "statistics_energy env config keys (stats1, calls1)") auto
  with assms s1 r1 obtain stats2 where r2: "res2 = Inr stats2"
    by (cases res2) (auto simp add: get_statistics_def)
  from assms s1 r1 s2 r2
  have "statistics_per_species_energy env config sg keys (stats2, calls2) = (Inr stats, calls)"
    by (simp add: get_statistics_def)
  with s1 r1 s2 r2 that show ?thesis by blast
qed

lemma get_statistics_stored_force_rms:
  assumes "get_statistics env config sg keys = (Inr stats, calls)"
    and "''force_rms'' \<in> set keys"
  shows "\<exists>c rms. c \<in> set calls \<and> call_modes c = [''rms''] \<and>
           dataset_train_statistics env c = [[rms]] \<and>
           map_of stats ''dataset_force_rms'' = Some rms"
proof -
  from assms(1) obtain stats1 calls1 stats2 calls2 where
    s1: "statistics_force_rms env config keys ([], []) = (Inr stats1, calls1)" and
    s2: "statistics_energy env config keys (stats1, calls1) = (Inr stats2, calls2)" and
    s3: "statistics_per_species_energy env config sg keys (stats2, calls2) = (Inr stats, calls)"
    by (rule get_statistics_steps)
  from force_rms_step [OF s1] assms(2) obtain c rms where
    c: "calls1 = [c]" "call_modes c = [''rms'']" "dataset_train_statistics env c = [[rms]]"
       "stats1 = dict_set [] ''dataset_force_rms'' rms"
    by auto
  from energy_step [OF s2] per_species_step [OF s3]
  have "c \<in> set calls \<and> map_of stats ''dataset_force_rms'' = Some rms"
    using c by (auto simp add: map_of_dict_set)
  with c show ?thesis by blast
qed

lemma get_statistics_stored_per_species:
  assumes "get_statistics env config sg keys = (Inr stats, calls)"
    and "''per_species_energy_std'' \<in> set keys \<or> ''per_species_energy_mean'' \<in> set keys"
  shows "\<exists>c mean std. c \<in> set calls \<and> call_modes c = [''atom_type_mean_std''] \<and>
           dataset_train_statistics env c = [[mean, std]] \<and>
           map_of stats ''dataset_per_species_energy_mean'' = Some mean \<and>
           map_of stats ''dataset_per_species_energy_std'' = Some std"
proof -
  from assms(1) obtain stats1 calls1 stats2 calls2 where
    s3: "statistics_per_species_energy env config sg keys (stats2, calls2) = (Inr stats, calls)"
    by (rule get_statistics_steps)
  from per_species_step [OF s3] assms(2) obtain c mean std where
    "calls = calls2 @ [c]" "call_modes c = [''atom_type_mean_std'']"
    "dataset_train_statistics env c = [[mean, std]]"
    "stats = dict_set (dict_set stats2 ''dataset_per_species_energy_mean'' mean)
               ''dataset_per_species_energy_std'' std"
    by auto
  then show ?thesis by (auto simp add: map_of_dict_set)
qed

lemma rescale_calibration_after_statistics:
  assumes "determine_energy_rescale_type config force_training = Inr r"
    and "determine_statistics_keys r force_training = Inr keys"
    and "get_statistics env (config_after r) (sigma r) keys = (res, calls)"
  shows "snd (rescale_calibration env config force_training) = calls"
  using assms by (simp add: rescale_calibration_def split: sum.splits prod.splits)

lemma rescale_calibration_calls:
  "snd (rescale_calibration env config force_training) = [] \<or>
   (\<exists>res. get_statistics env (config_after (read_rescale_type config force_training))
        (sigma (read_rescale_type config force_training))
        (required_keys (read_rescale_type config force_training))
        = (res, snd (rescale_calibration env config force_training)))"
proof (cases "determine_energy_rescale_type config force_training")
  case (Inl e)
  then show ?thesis by (simp add: rescale_calibration_def)
next
  case (Inr r)
  note r = this
  show ?thesis
  proof (cases "determine_statistics_keys r force_training")
    case (Inl e)
    with r show ?thesis by (simp add: rescale_calibration_def)
  next
    case (Inr keys)
    obtain res calls where g: "get_statistics env (config_after r) (sigma r) keys = (res, calls)"
      by (cases "get_statistics env (config_after r) (sigma r) keys") auto
    from rescale_calibration_after_statistics [OF r Inr g]
    have "snd (rescale_calibration env config force_training) = calls" .
    with g rescale_type_read [OF r] statistics_keys_required [OF Inr] show ?thesis by auto
  qed
qed

lemma fresh_start_calls:
  "snd (fresh_start env config) = [] \<or>
   (\<exists>force_training res.
      determine_training_type config = Inr force_training \<and>
      get_statistics env (config_after (read_rescale_type config force_training))
        (sigma (read_rescale_type config force_training))
        (required_keys (read_rescale_type config force_training))
        = (res, snd (fresh_start env config)))"
proof (cases "determine_training_type config")
  case (Inl e)
  then show ?thesis by (simp add: fresh_start_def)
next
  case (Inr force_training)
  then have "fresh_start env config = rescale_calibration env config force_training"
    by (simp add: fresh_start_def)
  with Inr rescale_calibration_calls [of env config force_training] show ?thesis by auto
qed

lemma fresh_start_once:
  "length (filter (\<lambda>c. call_modes c = m) (snd (fresh_start env config))) \<le> 1"
proof -
  from fresh_start_calls [of env config]
  consider "snd (fresh_start env config) = []"
    | cfg sg keys res where "get_statistics env cfg sg keys = (res, snd (fresh_start env config))"
    by blast
  then show ?thesis
  proof cases
    case 1
    then show ?thesis by simp
  next
    case 2
    then show ?thesis by (rule get_statistics_once)
  qed
qed

lemma rescale_calibration_resolved:
  assumes "determine_energy_rescale_type config force_training = Inr r"
    and "determine_statistics_keys r force_training = Inr keys"
    and "get_statistics env (config_after r) (sigma r) keys = (Inr stats, calls)"
  shows "rescale_calibration env config force_training =
     (case determine_global_shift_scale r stats of
        Inl e \<Rightarrow> (Inl e, calls)
      | Inr (shift_v, scale_v) \<Rightarrow>
          (case determine_per_species r scale_v stats of
             Inl e \<Rightarrow> (Inl e, calls)
           | Inr config1 \<Rightarrow>
               (Inr \<lparr> final_config = config1,
                      final_model = build_model env config1 shift_v scale_v \<rparr>, calls)))"
  using assms by (simp add: rescale_calibration_def)

subsection \<open>The per-species block and the assembled model\<close>

lemma torch_min_tensor:
  assumes "t \<noteq> []"
  shows "torch_min (PTensor t) = Inr (Min (set t))"
proof (cases t)
  case Nil
  with assms show ?thesis by simp
next
  case (Cons a list)
  then show ?thesis using Min.set_eq_fold [of a list] by simp
qed

lemma broadcast_scalar: "broadcast t [g] = Some (map (\<lambda>x. (x, g)) t)"
  by (cases t) (auto simp add: broadcast_def)

lemma tensor_div_scalar:
  "g \<noteq> 0 \<Longrightarrow> tensor_div t [g] = Inr (PTensor (map (\<lambda>x. x / g) t))"
  by (simp add: tensor_div_def broadcast_scalar list_ex_iff comp_def)

lemma relative_to_vector:
  assumes "scale_v = PNone \<and> g = 1 \<or> (scale_v = PFloat g \<or> scale_v = PTensor [g]) \<and> g \<noteq> 0"
  shows "relative_to (PTensor s) (if scale_v = PNone then PInt 1 else scale_v) =
         Inr (PTensor (map (\<lambda>x. x / g) s))"
  using assms by (auto simp add: relative_to_def py_truediv_def tensor_div_scalar)

lemma fresh_start_model:
  assumes "fresh_start env config = (Inr out, calls)"
  shows "\<exists>shift_v scale_v. final_model out = build_model env (final_config out) shift_v scale_v"
proof -
  from assms obtain force_training where
    "rescale_calibration env config force_training = (Inr out, calls)"
    by (cases "determine_training_type config") (auto simp add: fresh_start_def)
  then show ?thesis
    by (fastforce simp add: rescale_calibration_def split: sum.splits prod.splits)
qed

section \<open>The claims\<close>

subsection \<open>C1: global shift and per-species shift exclude each other\<close>

text \<open>
  Claim C1. For every configuration in which the global shift (line 158) is not
  \<^verbatim>\<open>None\<close> and the per-species scale/shift is enabled (line 163, a true value),
  the rescale calibration fails with the error of line 168, whatever the other
  entries and the training type are, and no statistics call has been made. Started
  from \<^verbatim>\<open>fresh_start\<close>, that is the error raised once the training type has
  been determined, and in every case no statistics call is made.
\<close>

theorem conflict_aborts_before_statistics:
  assumes "dict_get config ''global_rescale_shift'' (PStr ''dataset_energy_mean'') \<noteq> PNone"
    and "truthy (get_per_species config ''enable'' (PBool False)) = Inr True"
  shows "rescale_calibration env config force_training = (Inl EitherGlobalOrPerSpeciesShift, []) \<and>
         (determine_training_type config = Inr force_training \<longrightarrow>
            fresh_start env config = (Inl EitherGlobalOrPerSpeciesShift, [])) \<and>
         snd (fresh_start env config) = []"
proof -
  have c: "rescale_calibration env config ft = (Inl EitherGlobalOrPerSpeciesShift, [])" for ft
    using assms by (intro conflict_raised) (simp_all add: read_global_shift read_enable)
  then show ?thesis
    by (cases "determine_training_type config") (simp_all add: fresh_start_def)
qed

text \<open>A run with a literal global shift and the per-species mode switched on.\<close>

theorem conflict_aborts_before_statistics_witness:
  "fresh_start example_env
     [(''loss_coeffs'', PStr ''forces''), (''global_rescale_shift'', PFloat (1 / 2)),
      (''per_species_scale_shift_enable'', PBool True)]
   = (Inl EitherGlobalOrPerSpeciesShift, [])"
  using conflict_aborts_before_statistics
    [of "[(''loss_coeffs'', PStr ''forces''), (''global_rescale_shift'', PFloat (1 / 2)),
          (''per_species_scale_shift_enable'', PBool True)]" example_env True]
  by (simp add: dict_get_def get_per_species_def determine_training_type_def config_attr_def)

subsection \<open>C2: the threshold on the global scale\<close>

text \<open>
  Claim C2, as the code has it. Once the global shift and the global scale are
  resolved, \<^verbatim>\<open>fresh_start\<close> fails with the error of line 229, which carries the
  value, when the global scale is a Python float below \<open>1e-6\<close>, and it never fails
  with that error otherwise: a float such as \<open>1.0\<close> passes, and so does every
  value that is not a float, since line 228 compares only what
  \<^verbatim>\<open>isinstance(global_scale, float)\<close> lets through.
\<close>

theorem global_scale_threshold_on_floats:
  assumes "determine_training_type config = Inr force_training"
    and "determine_energy_rescale_type config force_training = Inr r"
    and "determine_statistics_keys r force_training = Inr keys"
    and "get_statistics env (config_after r) (sigma r) keys = (Inr stats, calls)"
    and "set_value (global_shift r) ''global_shift'' stats = Inr shift_v"
    and "set_value (global_scale r) ''global_scale'' stats = Inr scale_v"
  shows "(\<forall>x. scale_v = PFloat x \<and> x < 1 / 1000000 \<longrightarrow>
            fresh_start env config = (Inl (GlobalScalingVeryLow x), calls)) \<and>
         ((\<forall>x. scale_v = PFloat x \<longrightarrow> \<not> x < 1 / 1000000) \<longrightarrow>
            (\<forall>y. fst (fresh_start env config) \<noteq> Inl (GlobalScalingVeryLow y)))"
proof -
  have f: "fresh_start env config = rescale_calibration env config force_training"
    using assms(1) by (simp add: fresh_start_def)
  note rc = rescale_calibration_resolved [OF assms(2,3,4)]
  show ?thesis
  proof (intro conjI impI allI)
    fix x assume "scale_v = PFloat x \<and> x < 1 / 1000000"
    then have "determine_global_shift_scale r stats = Inl (GlobalScalingVeryLow x)"
      using assms(5,6) by (simp add: determine_global_shift_scale_def RESCALE_THRESHOLD_def)
    with f rc show "fresh_start env config = (Inl (GlobalScalingVeryLow x), calls)" by simp
  next
    fix y assume h: "\<forall>x. scale_v = PFloat x \<longrightarrow> \<not> x < 1 / 1000000"
    then have "check_global_scale scale_v = Inr ()"
      by (cases scale_v) (simp_all add: RESCALE_THRESHOLD_def)
    then have "determine_global_shift_scale r stats = Inr (shift_v, scale_v)"
      using assms(5,6) by (simp add: determine_global_shift_scale_def)
    with f rc show "fst (fresh_start env config) \<noteq> Inl (GlobalScalingVeryLow y)"
      by (auto split: sum.splits dest: determine_per_species_error)
  qed
qed

text \<open>The two values of the claim, as literal global scales: \<open>5e-7\<close> fails, \<open>1.0\<close> does not.\<close>

theorem global_scale_threshold_on_floats_witness:
  "fresh_start example_env
     [(''loss_coeffs'', PStr ''forces''), (''global_rescale_shift'', PNone),
      (''global_rescale_scale'', PFloat (5 / 10000000))]
   = (Inl (GlobalScalingVeryLow (5 / 10000000)), []) \<and>
   fst (fresh_start example_env
     [(''loss_coeffs'', PStr ''forces''), (''global_rescale_shift'', PNone),
      (''global_rescale_scale'', PFloat 1)]) \<noteq> Inl (GlobalScalingVeryLow 1)"
proof -
  let ?c = "\<lambda>x. [(''loss_coeffs'', PStr ''forces''), (''global_rescale_shift'', PNone),
      (''global_rescale_scale'', PFloat x)]"
  let ?r = "\<lambda>x. read_rescale_type (?c x) True"
  have 1: "determine_training_type (?c x) = Inr True" for x
    by (simp add: determine_training_type_def config_attr_def)
  have 2: "determine_energy_rescale_type (?c x) True = Inr (?r x)" for x
    by (simp add: run_defs)
  have 3: "determine_statistics_keys (?r x) True = Inr []" for x
    by (simp add: run_defs)
  have 4: "get_statistics example_env (config_after (?r x)) (sigma (?r x)) [] = (Inr [], [])" for x
    by (simp add: run_defs)
  have 5: "set_value (global_shift (?r x)) ''global_shift'' [] = Inr PNone" for x
    by (simp add: run_defs)
  have 6: "set_value (global_scale (?r x)) ''global_scale'' [] = Inr (PFloat x)" for x
    by (simp add: run_defs)
  from global_scale_threshold_on_floats [OF 1 2 3 4 5 6, of "5 / 10000000"]
    global_scale_threshold_on_floats [OF 1 2 3 4 5 6, of 1]
  show ?thesis by simp
qed

text \<open>
  The claim as it is written fails for a concrete numeric value held in a tensor:
  \<^verbatim>\<open>set_value\<close> passes a tensor through (line 348), and a global scale
  \<^verbatim>\<open>torch.tensor(5e-7)\<close> is not compared with the threshold; the model is
  assembled with it.
\<close>

theorem tensor_global_scale_not_checked:
  "fresh_start example_env
     [(''loss_coeffs'', PStr ''forces''), (''global_rescale_shift'', PNone),
      (''global_rescale_scale'', PTensor [5 / 10000000])]
   = (Inr \<lparr> final_config =
              [(''loss_coeffs'', PStr ''forces''), (''global_rescale_shift'', PNone),
               (''global_rescale_scale'', PTensor [5 / 10000000])],
            final_model =
              \<lparr> core_irreps_out = [''total_energy'', ''forces''],
                scale_keys = [''total_energy'', ''forces''],
                scale_by = PTensor [5 / 10000000], shift_keys = ''total_energy'',
                shift_by = PNone,
                trainable_global_rescale_shift = PBool False,
                trainable_global_rescale_scale = PBool False \<rparr> \<rparr>,
      [])"
  by (simp add: run_defs)

subsection \<open>C3: values the resolver passes through\<close>

text \<open>
  Claim C3, as the code has it. For every slot name and every statistics mapping,
  \<^verbatim>\<open>set_value\<close> returns \<^verbatim>\<open>None\<close>, a Python float and a tensor unchanged
  (none of them equals a key of the mapping, the keys being strings). A literal
  integer is a numeric scalar too, and it is not passed through: line 347 admits
  \<^verbatim>\<open>float\<close> only, so the integer is rejected with the error of line 351.
\<close>

theorem set_value_pass_through:
  "(variable = PNone \<or> is_float variable \<or> is_tensor variable \<longrightarrow>
      set_value variable variable_name value_dict = Inr variable) \<and>
   set_value (PInt i) variable_name value_dict = Inl (InvalidValue variable_name (PInt i))"
proof (intro conjI impI)
  assume h: "variable = PNone \<or> is_float variable \<or> is_tensor variable"
  then have "\<forall>s. variable \<noteq> PStr s" by auto
  then have "set_value_loop variable value_dict = None"
    by (rule set_value_loop_non_string)
  with h show "set_value variable variable_name value_dict = Inr variable"
    by (simp add: set_value_def)
next
  show "set_value (PInt i) variable_name value_dict = Inl (InvalidValue variable_name (PInt i))"
    by (simp add: set_value_def set_value_loop_non_string)
qed

theorem set_value_pass_through_witness:
  "set_value (PFloat (1 / 2)) ''global_shift'' [(''dataset_energy_mean'', PFloat 3)]
   = Inr (PFloat (1 / 2))"
  using set_value_pass_through
    [of "PFloat (1 / 2)" "''global_shift''" "[(''dataset_energy_mean'', PFloat 3)]"]
  by simp

text \<open>
  The claim as it is written fails for the literal numeric scalar \<open>1\<close>, an integer,
  as \<^verbatim>\<open>global_rescale_scale: 1\<close> gives it.
\<close>

theorem set_value_rejects_integer_literal:
  "set_value (PInt 1) ''global_scale'' [(''dataset_energy_mean'', PFloat 3)]
   = Inl (InvalidValue ''global_scale'' (PInt 1))"
  by (simp add: set_value_def)

subsection \<open>C4: one statistics call per family, only for a referenced family\<close>

text \<open>
  Claim C4 does not hold of the code. Its middle clause, that no statistics call is
  made for a family which none of the four slots references, fails by the slip shown
  under C6: line 174 tests the prefix \<^verbatim>\<open>dataset\<close>, line 175 strips the length
  of \<^verbatim>\<open>dataset_\<close>. In the run below the per-species mode is off and the four
  slots are \<^verbatim>\<open>None\<close>, \<open>1.0\<close>, the string \<^verbatim>\<open>datasetXper_species_energy_std\<close>
  and \<^verbatim>\<open>None\<close>: none of them is a placeholder \<^verbatim>\<open>dataset_<name>\<close>, so no
  family is referenced, and yet the \<^verbatim>\<open>atom_type_mean_std\<close> call is made; the run
  then assembles the model as if nothing had happened.
\<close>

theorem unreferenced_family_statistics_call:
  "[global_shift
      (read_rescale_type
         [(''loss_coeffs'', PStr ''forces''), (''dataset_statistics_stride'', PInt 1),
          (''global_rescale_shift'', PNone), (''global_rescale_scale'', PFloat 1),
          (''per_species_scale_shift_scales'', PStr ''datasetXper_species_energy_std'')] True),
    global_scale
      (read_rescale_type
         [(''loss_coeffs'', PStr ''forces''), (''dataset_statistics_stride'', PInt 1),
          (''global_rescale_shift'', PNone), (''global_rescale_scale'', PFloat 1),
          (''per_species_scale_shift_scales'', PStr ''datasetXper_species_energy_std'')] True),
    scales
      (read_rescale_type
         [(''loss_coeffs'', PStr ''forces''), (''dataset_statistics_stride'', PInt 1),
          (''global_rescale_shift'', PNone), (''global_rescale_scale'', PFloat 1),
          (''per_species_scale_shift_scales'', PStr ''datasetXper_species_energy_std'')] True),
    shifts
      (read_rescale_type
         [(''loss_coeffs'', PStr ''forces''), (''dataset_statistics_stride'', PInt 1),
          (''global_rescale_shift'', PNone), (''global_rescale_scale'', PFloat 1),
          (''per_species_scale_shift_scales'', PStr ''datasetXper_species_energy_std'')] True)]
   = [PNone, PFloat 1, PStr ''datasetXper_species_energy_std'', PNone] \<and>
   filter spec_placeholder [PNone, PFloat 1, PStr ''datasetXper_species_energy_std'', PNone] = [] \<and>
   fresh_start example_env
     [(''loss_coeffs'', PStr ''forces''), (''dataset_statistics_stride'', PInt 1),
      (''global_rescale_shift'', PNone), (''global_rescale_scale'', PFloat 1),
      (''per_species_scale_shift_scales'', PStr ''datasetXper_species_energy_std'')]
   = (Inr \<lparr> final_config =
              [(''loss_coeffs'', PStr ''forces''), (''dataset_statistics_stride'', PInt 1),
               (''global_rescale_shift'', PNone), (''global_rescale_scale'', PFloat 1)],
            final_model =
              \<lparr> core_irreps_out = [''total_energy'', ''forces''],
                scale_keys = [''total_energy'', ''forces''],
                scale_by = PFloat 1, shift_keys = ''total_energy'',
                shift_by = PNone,
                trainable_global_rescale_shift = PBool False,
                trainable_global_rescale_scale = PBool False \<rparr> \<rparr>,
      [\<lparr> call_fields = [''total_energy''], call_modes = [''atom_type_mean_std''],
         call_stride = PInt 1,
         call_kwargs = [(''sigma'', PNone), (''algorithm_kwargs'', PDict [])] \<rparr>])"
  by (simp add: run_defs)

text \<open>
  The rest of the claim the code keeps. For every configuration and dataset,
  \<^verbatim>\<open>fresh_start\<close> makes at most one statistics call of each mode, however many
  slots name the family; every call it makes is for a family of which the four
  slots yield a key in lines 172-176; and where every slot that line 174 treats as
  a placeholder does have the form \<^verbatim>\<open>dataset_<name>\<close>, each key \<open>k\<close> comes from a
  slot that is the string \<^verbatim>\<open>dataset_k\<close>.
\<close>

lemma statistics_calls_once_and_for_derived_keys:
  "(\<forall>m. length (filter (\<lambda>c. call_modes c = m) (snd (fresh_start env config))) \<le> 1) \<and>
   (\<forall>c \<in> set (snd (fresh_start env config)).
      \<exists>force_training keys.
        determine_training_type config = Inr force_training \<and>
        keys = required_keys (read_rescale_type config force_training) \<and>
        (call_modes c = [''rms''] \<and> ''force_rms'' \<in> set keys \<or>
         call_modes c = [''mean_std''] \<and>
           (''energy_std'' \<in> set keys \<or> ''energy_mean'' \<in> set keys) \<or>
         call_modes c = [''atom_type_mean_std''] \<and>
           (''per_species_energy_std'' \<in> set keys \<or> ''per_species_energy_mean'' \<in> set keys))) \<and>
   (list_all (\<lambda>v. treated_as_placeholder v = spec_placeholder v)
      [global_shift r, global_scale r, scales r, shifts r] \<longrightarrow>
    (\<forall>k \<in> set (required_keys r).
       PStr (''dataset_'' @ k) \<in> set [global_shift r, global_scale r, scales r, shifts r]))"
proof (intro conjI allI ballI impI)
  fix m
  show "length (filter (\<lambda>c. call_modes c = m) (snd (fresh_start env config))) \<le> 1"
    by (rule fresh_start_once)
next
  fix c assume c: "c \<in> set (snd (fresh_start env config))"
  with fresh_start_calls [of env config] obtain force_training res where
    t: "determine_training_type config = Inr force_training" and
    g: "get_statistics env (config_after (read_rescale_type config force_training))
        (sigma (read_rescale_type config force_training))
        (required_keys (read_rescale_type config force_training))
        = (res, snd (fresh_start env config))"
    by auto
  from get_statistics_only_required [OF g c] t
  show "\<exists>force_training keys.
        determine_training_type config = Inr force_training \<and>
        keys = required_keys (read_rescale_type config force_training) \<and>
        (call_modes c = [''rms''] \<and> ''force_rms'' \<in> set keys \<or>
         call_modes c = [''mean_std''] \<and>
           (''energy_std'' \<in> set keys \<or> ''energy_mean'' \<in> set keys) \<or>
         call_modes c = [''atom_type_mean_std''] \<and>
           (''per_species_energy_std'' \<in> set keys \<or> ''per_species_energy_mean'' \<in> set keys))"
    by blast
next
  fix k
  assume "list_all (\<lambda>v. treated_as_placeholder v = spec_placeholder v)
      [global_shift r, global_scale r, scales r, shifts r]"
    and "k \<in> set (required_keys r)"
  then show "PStr (''dataset_'' @ k) \<in> set [global_shift r, global_scale r, scales r, shifts r]"
    by (intro required_keys_slots)
qed

text \<open>
  When the statistics block completes, each required family has had its call, and
  \<^verbatim>\<open>set_value\<close> returns for a placeholder exactly what that call answered, the
  same for every slot name.
\<close>

lemma resolved_statistics_are_the_stored_values:
  assumes "get_statistics env config sg keys = (Inr stats, calls)"
  shows "''force_rms'' \<in> set keys \<Longrightarrow>
           \<exists>c rms. c \<in> set calls \<and> call_modes c = [''rms''] \<and>
             dataset_train_statistics env c = [[rms]] \<and>
             (\<forall>variable_name.
                set_value (PStr ''dataset_force_rms'') variable_name stats = Inr rms)"
    and "''energy_std'' \<in> set keys \<or> ''energy_mean'' \<in> set keys \<Longrightarrow>
           \<exists>c mean std. c \<in> set calls \<and> call_modes c = [''mean_std''] \<and>
             dataset_train_statistics env c = [[mean, std]] \<and>
             (\<forall>variable_name.
                set_value (PStr ''dataset_energy_mean'') variable_name stats = Inr mean) \<and>
             (\<forall>variable_name.
                set_value (PStr ''dataset_energy_std'') variable_name stats = Inr std)"
    and "''per_species_energy_std'' \<in> set keys \<or> ''per_species_energy_mean'' \<in> set keys \<Longrightarrow>
           \<exists>c mean std. c \<in> set calls \<and> call_modes c = [''atom_type_mean_std''] \<and>
             dataset_train_statistics env c = [[mean, std]] \<and>
             (\<forall>variable_name.
                set_value (PStr ''dataset_per_species_energy_mean'') variable_name stats
                  = Inr mean) \<and>
             (\<forall>variable_name.
                set_value (PStr ''dataset_per_species_energy_std'') variable_name stats
                  = Inr std)"
proof -
  assume "''force_rms'' \<in> set keys"
  from get_statistics_stored_force_rms [OF assms this]
  show "\<exists>c rms. c \<in> set calls \<and> call_modes c = [''rms''] \<and>
             dataset_train_statistics env c = [[rms]] \<and>
             (\<forall>variable_name.
                set_value (PStr ''dataset_force_rms'') variable_name stats = Inr rms)"
    using set_value_lookup by blast
next
  assume "''energy_std'' \<in> set keys \<or> ''energy_mean'' \<in> set keys"
  from get_statistics_stored_energy [OF assms this]
  show "\<exists>c mean std. c \<in> set calls \<and> call_modes c = [''mean_std''] \<and>
             dataset_train_statistics env c = [[mean, std]] \<and>
             (\<forall>variable_name.
                set_value (PStr ''dataset_energy_mean'') variable_name stats = Inr mean) \<and>
             (\<forall>variable_name.
                set_value (PStr ''dataset_energy_std'') variable_name stats = Inr std)"
    using set_value_lookup by blast
next
  assume "''per_species_energy_std'' \<in> set keys \<or> ''per_species_energy_mean'' \<in> set keys"
  from get_statistics_stored_per_species [OF assms this]
  show "\<exists>c mean std. c \<in> set calls \<and> call_modes c = [''atom_type_mean_std''] \<and>
             dataset_train_statistics env c = [[mean, std]] \<and>
             (\<forall>variable_name.
                set_value (PStr ''dataset_per_species_energy_mean'') variable_name stats
                  = Inr mean) \<and>
             (\<forall>variable_name.
                set_value (PStr ''dataset_per_species_energy_std'') variable_name stats
                  = Inr std)"
    using set_value_lookup by blast
qed

text \<open>
  A run in which the global shift and the global scale both name
  \<^verbatim>\<open>dataset_energy_mean\<close>: one \<^verbatim>\<open>mean_std\<close> call, and both slots get the mean.
\<close>

lemma two_slots_one_statistics_call:
  "fresh_start example_env
     [(''loss_coeffs'', PStr ''forces''), (''dataset_statistics_stride'', PInt 1),
      (''global_rescale_shift'', PStr ''dataset_energy_mean''),
      (''global_rescale_scale'', PStr ''dataset_energy_mean'')]
   = (Inr \<lparr> final_config =
              [(''loss_coeffs'', PStr ''forces''), (''dataset_statistics_stride'', PInt 1),
               (''global_rescale_shift'', PStr ''dataset_energy_mean''),
               (''global_rescale_scale'', PStr ''dataset_energy_mean'')],
            final_model =
              \<lparr> core_irreps_out = [''total_energy'', ''forces''],
                scale_keys = [''total_energy'', ''forces''],
                scale_by = PFloat 3, shift_keys = ''total_energy'',
                shift_by = PFloat 3,
                trainable_global_rescale_shift = PBool False,
                trainable_global_rescale_scale = PBool False \<rparr> \<rparr>,
      [\<lparr> call_fields = [''total_energy''], call_modes = [''mean_std''], call_stride = PInt 1,
         call_kwargs = [] \<rparr>]) \<and>
   get_statistics example_env
     [(''loss_coeffs'', PStr ''forces''), (''dataset_statistics_stride'', PInt 1),
      (''global_rescale_shift'', PStr ''dataset_energy_mean''),
      (''global_rescale_scale'', PStr ''dataset_energy_mean'')] PNone [''energy_mean'']
   = (Inr [(''dataset_energy_mean'', PFloat 3), (''dataset_energy_std'', PFloat 2)],
      [\<lparr> call_fields = [''total_energy''], call_modes = [''mean_std''], call_stride = PInt 1,
         call_kwargs = [] \<rparr>]) \<and>
   set_value (PStr ''dataset_energy_mean'') ''global_shift''
     [(''dataset_energy_mean'', PFloat 3), (''dataset_energy_std'', PFloat 2)] = Inr (PFloat 3) \<and>
   set_value (PStr ''dataset_energy_mean'') ''global_scale''
     [(''dataset_energy_mean'', PFloat 3), (''dataset_energy_std'', PFloat 2)] = Inr (PFloat 3)"
  by (simp add: run_defs)

subsection \<open>C5: the per-species check comes before the division\<close>

text \<open>
  Claim C5. With the per-species mode enabled, per-species scales resolved to a
  non-empty tensor \<open>t\<close>, shifts resolved to \<^verbatim>\<open>None\<close> or a tensor, and a global
  scale that is \<^verbatim>\<open>None\<close> (then \<open>g = 1\<close>), a float \<open>g\<close> or a one-entry tensor
  \<open>g\<close>: the block fails with the error of line 250 exactly when the least entry of
  \<open>t\<close> itself, not of \<open>t / g\<close>, is below \<open>1e-6\<close>; otherwise it stores \<open>t\<close> divided
  entry by entry by \<open>g\<close> under \<^verbatim>\<open>PerSpeciesScaleShift_scales\<close> and the resolved
  shifts divided by \<open>g\<close> (\<^verbatim>\<open>None\<close> staying \<^verbatim>\<open>None\<close>) under
  \<^verbatim>\<open>PerSpeciesScaleShift_shifts\<close>. A float global scale that reaches the block
  is at least \<open>1e-6\<close>, so \<open>g\<close> is not zero there.
\<close>

theorem per_species_check_then_divide:
  assumes "truthy (per_species_scale_shift r) = Inr True"
    and "set_value (scales r) ''per_species_scales'' stats = Inr (PTensor t)"
    and "t \<noteq> []"
    and "set_value (shifts r) ''per_species_shifts'' stats = Inr shifts_v"
    and "shifts_v = PNone \<or> is_tensor shifts_v"
    and "scale_v = PNone \<and> g = 1 \<or> (scale_v = PFloat g \<or> scale_v = PTensor [g]) \<and> g \<noteq> 0"
  shows "determine_per_species r scale_v stats =
     (if Min (set t) < 1 / 1000000 then Inl (AtomicScalingVeryLow (Min (set t)))
      else Inr (dict_set
                  (dict_set (config_after r) ''PerSpeciesScaleShift_scales''
                     (PTensor (map (\<lambda>x. x / g) t)))
                  ''PerSpeciesScaleShift_shifts''
                  (case shifts_v of PTensor s \<Rightarrow> PTensor (map (\<lambda>x. x / g) s) | w \<Rightarrow> w)))"
proof -
  have chk: "check_atomic_scales (PTensor t) =
      (if Min (set t) < 1 / 1000000 then Inl (AtomicScalingVeryLow (Min (set t))) else Inr ())"
    using assms(3) by (simp add: check_atomic_scales_def torch_min_tensor RESCALE_THRESHOLD_def)
  note sc = relative_to_vector [OF assms(6)]
  have sh: "relative_to shifts_v (if scale_v = PNone then PInt 1 else scale_v) =
      Inr (case shifts_v of PTensor s \<Rightarrow> PTensor (map (\<lambda>x. x / g) s) | w \<Rightarrow> w)"
  proof (cases shifts_v)
    case PNone
    then show ?thesis by (simp add: relative_to_def)
  next
    case (PTensor s)
    then show ?thesis using sc [of s] by simp
  qed (use assms(5) in simp_all)
  show ?thesis
    unfolding determine_per_species_def Let_def
    by (simp add: assms(1,2,4) chk sc sh)
qed

text \<open>The run of the claim: global scale \<open>2.0\<close>, per-species scales \<open>[4.0, 6.0]\<close>, stored \<open>[2.0, 3.0]\<close>.\<close>

theorem per_species_check_then_divide_witness:
  "determine_per_species
     (read_rescale_type
        [(''loss_coeffs'', PStr ''forces''), (''global_rescale_shift'', PNone),
         (''global_rescale_scale'', PFloat 2), (''PerSpeciesScaleShift_enable'', PBool True),
         (''PerSpeciesScaleShift_scales'', PTensor [4, 6])] True)
     (PFloat 2) []
   = Inr [(''loss_coeffs'', PStr ''forces''), (''global_rescale_shift'', PNone),
          (''global_rescale_scale'', PFloat 2), (''PerSpeciesScaleShift_enable'', PBool True),
          (''PerSpeciesScaleShift_scales'', PTensor [2, 3]),
          (''PerSpeciesScaleShift_shifts'', PNone)] \<and>
   map_option final_config
     (case fst (fresh_start example_env
        [(''loss_coeffs'', PStr ''forces''), (''global_rescale_shift'', PNone),
         (''global_rescale_scale'', PFloat 2), (''PerSpeciesScaleShift_enable'', PBool True),
         (''PerSpeciesScaleShift_scales'', PTensor [4, 6])]) of
        Inl e \<Rightarrow> None | Inr out \<Rightarrow> Some out)
   = Some [(''loss_coeffs'', PStr ''forces''), (''global_rescale_shift'', PNone),
          (''global_rescale_scale'', PFloat 2), (''PerSpeciesScaleShift_enable'', PBool True),
          (''PerSpeciesScaleShift_scales'', PTensor [2, 3]),
          (''PerSpeciesScaleShift_shifts'', PNone)]"
proof -
  let ?c = "[(''loss_coeffs'', PStr ''forces''), (''global_rescale_shift'', PNone),
         (''global_rescale_scale'', PFloat 2), (''PerSpeciesScaleShift_enable'', PBool True),
         (''PerSpeciesScaleShift_scales'', PTensor [4, 6])]"
  let ?r = "read_rescale_type ?c True"
  have 1: "truthy (per_species_scale_shift ?r) = Inr True" by (simp add: run_defs)
  have 2: "set_value (scales ?r) ''per_species_scales'' [] = Inr (PTensor [4, 6])"
    by (simp add: run_defs)
  have 3: "[4, 6] \<noteq> ([] :: real list)" by simp
  have 4: "set_value (shifts ?r) ''per_species_shifts'' [] = Inr PNone" by (simp add: run_defs)
  have 5: "PNone = PNone \<or> is_tensor PNone" by simp
  have 6: "PFloat 2 = PNone \<and> (2::real) = 1 \<or>
      (PFloat 2 = PFloat 2 \<or> PFloat 2 = PTensor [2]) \<and> (2::real) \<noteq> 0" by simp
  have 7: "config_after ?r = [(''loss_coeffs'', PStr ''forces''), (''global_rescale_shift'', PNone),
          (''global_rescale_scale'', PFloat 2), (''PerSpeciesScaleShift_enable'', PBool True)]"
    by (simp add: run_defs)
  have a: "determine_per_species ?r (PFloat 2) [] =
      Inr [(''loss_coeffs'', PStr ''forces''), (''global_rescale_shift'', PNone),
          (''global_rescale_scale'', PFloat 2), (''PerSpeciesScaleShift_enable'', PBool True),
          (''PerSpeciesScaleShift_scales'', PTensor [2, 3]),
          (''PerSpeciesScaleShift_shifts'', PNone)]"
    using per_species_check_then_divide [OF 1 2 3 4 5 6] by (simp add: 7 dict_set_def)
  have b: "fresh_start example_env ?c =
      (case determine_per_species ?r (PFloat 2) [] of
         Inl e \<Rightarrow> (Inl e, [])
       | Inr config1 \<Rightarrow>
           (Inr \<lparr> final_config = config1,
                  final_model = build_model example_env config1 PNone (PFloat 2) \<rparr>, []))"
    by (simp add: fresh_start_def rescale_calibration_def determine_training_type_def
        config_attr_def determine_energy_rescale_type_def determine_statistics_keys_def
        required_keys_def startswith_def get_statistics_def statistics_force_rms_def
        statistics_energy_def statistics_per_species_energy_def determine_global_shift_scale_def
        set_value_def RESCALE_THRESHOLD_def Let_def read_rescale_type_def pop_per_species_def
        dict_pop_def dict_get_def get_per_species_def)
  show ?thesis by (simp add: a b)
qed

text \<open>
  The order matters. Scales \<open>[5e-7]\<close> with the global scale \<open>1e-6\<close> are rejected
  although the quotient is \<open>0.5\<close>; scales \<open>[1e-5]\<close> with the global scale \<open>100\<close> are
  accepted although the stored quotient \<open>1e-7\<close> is below the threshold.
\<close>

lemma per_species_check_uses_undivided_scales:
  "determine_per_species
     (read_rescale_type
        [(''PerSpeciesScaleShift_enable'', PBool True),
         (''PerSpeciesScaleShift_scales'', PTensor [5 / 10000000])] True)
     (PFloat (1 / 1000000)) []
   = Inl (AtomicScalingVeryLow (5 / 10000000)) \<and>
   determine_per_species
     (read_rescale_type
        [(''PerSpeciesScaleShift_enable'', PBool True),
         (''PerSpeciesScaleShift_scales'', PTensor [1 / 100000])] True)
     (PFloat 100) []
   = Inr [(''PerSpeciesScaleShift_enable'', PBool True),
          (''PerSpeciesScaleShift_scales'', PTensor [1 / 10000000]),
          (''PerSpeciesScaleShift_shifts'', PNone)]"
  by (simp add: run_defs)

subsection \<open>C6: which values count as placeholders\<close>

text \<open>
  Claim C6 does not hold of the code. A string \<^verbatim>\<open>dataset_<name>\<close> yields the
  key \<^verbatim>\<open><name>\<close>, as the claim says. But line 174 tests the prefix
  \<^verbatim>\<open>dataset\<close> (seven characters) while line 175 strips the length of
  \<^verbatim>\<open>dataset_\<close> (eight): the string \<^verbatim>\<open>datasetXforce_rms\<close> is not of the form
  \<^verbatim>\<open>dataset_<name>\<close>, yet it is treated as a placeholder and yields the key
  \<^verbatim>\<open>force_rms\<close>, and the \<^verbatim>\<open>rms\<close> call is made before \<^verbatim>\<open>set_value\<close>
  rejects the string.
\<close>

theorem placeholder_prefix_mismatch:
  "statistics_keys [PStr (''dataset_'' @ name)] = [name] \<and>
   treated_as_placeholder (PStr ''datasetXforce_rms'') \<and>
   \<not> spec_placeholder (PStr ''datasetXforce_rms'') \<and>
   statistics_keys [PNone, PStr ''datasetXforce_rms'', PNone, PNone] = [''force_rms''] \<and>
   fresh_start example_env
     [(''loss_coeffs'', PStr ''forces''), (''dataset_statistics_stride'', PInt 1),
      (''global_rescale_shift'', PNone), (''global_rescale_scale'', PStr ''datasetXforce_rms'')]
   = (Inl (InvalidValue ''global_scale'' (PStr ''datasetXforce_rms'')),
      [\<lparr> call_fields = [''forces''], call_modes = [''rms''], call_stride = PInt 1,
         call_kwargs = [] \<rparr>])"
  by (simp add: run_defs)

subsection \<open>C7: \<^verbatim>\<open>force_rms\<close> needs force training\<close>

text \<open>
  Claim C7. When \<^verbatim>\<open>loss_coeffs\<close> does not include \<^verbatim>\<open>forces\<close> and the four
  slots yield the key \<^verbatim>\<open>force_rms\<close>, \<^verbatim>\<open>fresh_start\<close> fails without any
  statistics call: with the error of line 178, unless the check of line 167 has
  already failed.
\<close>

theorem force_rms_needs_force_training:
  assumes "determine_training_type config = Inr False"
    and "''force_rms'' \<in> set (required_keys (read_rescale_type config False))"
  shows "fresh_start env config =
     (case determine_energy_rescale_type config False of
        Inl e \<Rightarrow> (Inl e, [])
      | Inr r \<Rightarrow> (Inl ForceRmsWithoutForceTraining, []))"
proof (cases "determine_energy_rescale_type config False")
  case (Inl e)
  with assms(1) show ?thesis by (simp add: fresh_start_def rescale_calibration_def)
next
  case (Inr r)
  with assms(2) have "determine_statistics_keys r False = Inl ForceRmsWithoutForceTraining"
    by (simp add: determine_statistics_keys_def rescale_type_read [OF Inr])
  with assms(1) Inr show ?thesis by (simp add: fresh_start_def rescale_calibration_def)
qed

theorem force_rms_needs_force_training_witness:
  "fresh_start example_env
     [(''loss_coeffs'', PStr ''total_energy''), (''dataset_statistics_stride'', PInt 1),
      (''global_rescale_scale'', PStr ''dataset_force_rms'')]
   = (Inl ForceRmsWithoutForceTraining, [])"
  using force_rms_needs_force_training
    [of "[(''loss_coeffs'', PStr ''total_energy''), (''dataset_statistics_stride'', PInt 1),
          (''global_rescale_scale'', PStr ''dataset_force_rms'')]" example_env]
  by (simp add: run_defs)

subsection \<open>C8: the keys the assembled model rescales\<close>

text \<open>
  Claim C8. Whenever \<^verbatim>\<open>fresh_start\<close> assembles a model, the core model is the
  one built from the final configuration, \<^verbatim>\<open>scale_keys\<close> contains the total
  energy key and, the three key names being distinct, contains the force key
  exactly when \<^verbatim>\<open>irreps_out\<close> of the core model has it, and likewise the
  per-atom energy key.
\<close>

theorem rescale_target_set:
  assumes "fresh_start env config = (Inr out, calls)"
  shows "core_irreps_out (final_model out) = model_builder env (final_config out) \<and>
         TOTAL_ENERGY_KEY env \<in> set (scale_keys (final_model out)) \<and>
         (distinct [TOTAL_ENERGY_KEY env, FORCE_KEY env, PER_ATOM_ENERGY_KEY env] \<longrightarrow>
            (FORCE_KEY env \<in> set (scale_keys (final_model out)) \<longleftrightarrow>
               FORCE_KEY env \<in> set (core_irreps_out (final_model out))) \<and>
            (PER_ATOM_ENERGY_KEY env \<in> set (scale_keys (final_model out)) \<longleftrightarrow>
               PER_ATOM_ENERGY_KEY env \<in> set (core_irreps_out (final_model out))))"
proof -
  from fresh_start_model [OF assms] obtain shift_v scale_v where
    "final_model out = build_model env (final_config out) shift_v scale_v" by blast
  then show ?thesis
    by (auto simp add: build_model_def rescale_scale_keys_def Let_def)
qed

text \<open>
  Two runs: a core model with forces and no per-atom energies, and one with per-atom
  energies and no forces.
\<close>

theorem rescale_target_set_witness:
  "fresh_start example_env
     [(''loss_coeffs'', PStr ''forces''), (''dataset_statistics_stride'', PInt 1)]
   = (Inr \<lparr> final_config =
              [(''loss_coeffs'', PStr ''forces''), (''dataset_statistics_stride'', PInt 1)],
            final_model =
              \<lparr> core_irreps_out = [''total_energy'', ''forces''],
                scale_keys = [''total_energy'', ''forces''],
                scale_by = PFloat (5 / 2), shift_keys = ''total_energy'',
                shift_by = PFloat 3,
                trainable_global_rescale_shift = PBool False,
                trainable_global_rescale_scale = PBool False \<rparr> \<rparr>,
      [\<lparr> call_fields = [''forces''], call_modes = [''rms''], call_stride = PInt 1,
         call_kwargs = [] \<rparr>,
       \<lparr> call_fields = [''total_energy''], call_modes = [''mean_std''], call_stride = PInt 1,
         call_kwargs = [] \<rparr>]) \<and>
   fresh_start per_atom_env
     [(''loss_coeffs'', PStr ''forces''), (''dataset_statistics_stride'', PInt 1)]
   = (Inr \<lparr> final_config =
              [(''loss_coeffs'', PStr ''forces''), (''dataset_statistics_stride'', PInt 1)],
            final_model =
              \<lparr> core_irreps_out = [''total_energy'', ''atomic_energy''],
                scale_keys = [''total_energy'', ''atomic_energy''],
                scale_by = PFloat (5 / 2), shift_keys = ''total_energy'',
                shift_by = PFloat 3,
                trainable_global_rescale_shift = PBool False,
                trainable_global_rescale_scale = PBool False \<rparr> \<rparr>,
      [\<lparr> call_fields = [''forces''], call_modes = [''rms''], call_stride = PInt 1,
         call_kwargs = [] \<rparr>,
       \<lparr> call_fields = [''total_energy''], call_modes = [''mean_std''], call_stride = PInt 1,
         call_kwargs = [] \<rparr>])"
proof -
  let ?c = "[(''loss_coeffs'', PStr ''forces''), (''dataset_statistics_stride'', PInt 1)]"
  let ?out = "\<lambda>ks. \<lparr> final_config = ?c,
            final_model =
              \<lparr> core_irreps_out = ks,
                scale_keys = ks,
                scale_by = PFloat (5 / 2), shift_keys = ''total_energy'',
                shift_by = PFloat 3,
                trainable_global_rescale_shift = PBool False,
                trainable_global_rescale_scale = PBool False \<rparr> \<rparr>"
  let ?calls = "[\<lparr> call_fields = [''forces''], call_modes = [''rms''], call_stride = PInt 1,
         call_kwargs = [] \<rparr>,
       \<lparr> call_fields = [''total_energy''], call_modes = [''mean_std''], call_stride = PInt 1,
         call_kwargs = [] \<rparr>]"
  have f: "fresh_start example_env ?c = (Inr (?out [''total_energy'', ''forces'']), ?calls)"
    by (simp add: run_defs)
  have g: "fresh_start per_atom_env ?c
      = (Inr (?out [''total_energy'', ''atomic_energy'']), ?calls)"
    by (simp add: run_defs per_atom_env_def)
  from rescale_target_set [OF f] rescale_target_set [OF g] f g show ?thesis by simp
qed

subsection \<open>C9: the default global shift\<close>

text \<open>
  Claim C9. Without an entry \<^verbatim>\<open>global_rescale_shift\<close> the global shift is the
  string \<^verbatim>\<open>dataset_energy_mean\<close>. So every configuration that enables the
  per-species mode and does not set \<^verbatim>\<open>global_rescale_shift\<close> to \<^verbatim>\<open>None\<close> fails
  in the rescale calibration with the error of line 168 and no statistics call, and
  so does \<^verbatim>\<open>fresh_start\<close> once the training type has been determined.
\<close>

theorem default_global_shift_conflict:
  "(map_of config ''global_rescale_shift'' = None \<longrightarrow>
      global_shift (read_rescale_type config force_training) = PStr ''dataset_energy_mean'') \<and>
   (map_of config ''global_rescale_shift'' \<noteq> Some PNone \<and>
    truthy (get_per_species config ''enable'' (PBool False)) = Inr True \<longrightarrow>
      rescale_calibration env config force_training = (Inl EitherGlobalOrPerSpeciesShift, []) \<and>
      (determine_training_type config = Inr force_training \<longrightarrow>
         fresh_start env config = (Inl EitherGlobalOrPerSpeciesShift, [])))"
proof (intro conjI impI)
  assume "map_of config ''global_rescale_shift'' = None"
  then show "global_shift (read_rescale_type config force_training) = PStr ''dataset_energy_mean''"
    by (simp add: read_global_shift dict_get_def)
next
  assume h: "map_of config ''global_rescale_shift'' \<noteq> Some PNone \<and>
    truthy (get_per_species config ''enable'' (PBool False)) = Inr True"
  then have "global_shift (read_rescale_type config force_training) \<noteq> PNone"
    by (auto simp add: read_global_shift dict_get_def split: option.splits)
  with h show c: "rescale_calibration env config force_training = (Inl EitherGlobalOrPerSpeciesShift, [])"
    by (intro conflict_raised) (simp_all add: read_enable)
  assume "determine_training_type config = Inr force_training"
  with c show "fresh_start env config = (Inl EitherGlobalOrPerSpeciesShift, [])"
    by (simp add: fresh_start_def)
qed

text \<open>A run that enables the per-species mode and says nothing about the global shift.\<close>

theorem default_global_shift_conflict_witness:
  "global_shift (read_rescale_type
     [(''loss_coeffs'', PStr ''forces''), (''PerSpeciesScaleShift_enable'', PBool True)] True)
   = PStr ''dataset_energy_mean'' \<and>
   fresh_start example_env
     [(''loss_coeffs'', PStr ''forces''), (''PerSpeciesScaleShift_enable'', PBool True)]
   = (Inl EitherGlobalOrPerSpeciesShift, [])"
  using default_global_shift_conflict
    [of "[(''loss_coeffs'', PStr ''forces''), (''PerSpeciesScaleShift_enable'', PBool True)]"
        True example_env]
  by (simp add: dict_get_def get_per_species_def determine_training_type_def config_attr_def)

subsection \<open>C10: training fields other than forces and total energy\<close>

text \<open>
  Claim C10. When \<^verbatim>\<open>loss_coeffs\<close> names a field other than \<^verbatim>\<open>forces\<close> and
  \<^verbatim>\<open>total_energy\<close>, \<^verbatim>\<open>fresh_start\<close> fails with the error of line 149, which
  depends on those names only: the rescale calibration is not entered and no
  statistics call is made, whatever the dataset and the other entries are.
\<close>

theorem unsupported_training_fields_fail_first:
  assumes "config_attr config ''loss_coeffs'' = Inr loss_coeffs"
    and "train_on_elements loss_coeffs = Inr train_on"
    and "\<not> set train_on \<subseteq> {PStr ''forces'', PStr ''total_energy''}"
  shows "fresh_start env config = (Inl (TrainingFieldsNotSupported (remdups train_on)), [])"
proof -
  from assms have "determine_training_type config = Inl (TrainingFieldsNotSupported (remdups train_on))"
    by (simp add: determine_training_type_def)
  then show ?thesis by (simp add: fresh_start_def)
qed

theorem unsupported_training_fields_fail_first_witness:
  "fresh_start example_env
     [(''loss_coeffs'', PList [PStr ''forces'', PStr ''stress'']),
      (''PerSpeciesScaleShift_enable'', PBool True)]
   = (Inl (TrainingFieldsNotSupported [PStr ''forces'', PStr ''stress'']), [])"
  using unsupported_training_fields_fail_first
    [of "[(''loss_coeffs'', PList [PStr ''forces'', PStr ''stress'']),
          (''PerSpeciesScaleShift_enable'', PBool True)]"
        "PList [PStr ''forces'', PStr ''stress'']" "[PStr ''forces'', PStr ''stress'']"
        example_env]
  by (simp add: config_attr_def)

end
